theory Spec2Isabelle
  imports Main "HOL-Library.Sublist"
begin

section \<open>JavaScript values used by the agents\<close>

text \<open>
  A value caught by a \<^verbatim>\<open>catch\<close> clause is either an \<^verbatim>\<open>Error\<close> object, of which the
  agents read only \<^verbatim>\<open>message\<close>, or some other value, of which they read only its
  rendering by \<^verbatim>\<open>String(error)\<close>.
\<close>

datatype js_thrown = JsError string | JsOther string

text \<open>\<^verbatim>\<open>error instanceof Error ? error.message : String(error)\<close>\<close>

fun error_text :: "js_thrown \<Rightarrow> string" where
  "error_text (JsError m) = m"
| "error_text (JsOther s) = s"

text \<open>
  Truthiness of a value of type \<^verbatim>\<open>string | undefined\<close>: \<^verbatim>\<open>undefined\<close> (and \<^verbatim>\<open>null\<close>) and
  the empty string are falsy, every other string is truthy.
\<close>

fun truthy :: "string option \<Rightarrow> bool" where
  "truthy None = False"
| "truthy (Some s) = (s \<noteq> [])"

text \<open>
  \<^verbatim>\<open>String.prototype.split\<close> with a separator of one character: the pieces between the
  occurrences of the separator, in order; the result is never the empty array
  (\<^verbatim>\<open>"".split("/")\<close> is \<^verbatim>\<open>[""]\<close>).
\<close>

fun split_str :: "char \<Rightarrow> string \<Rightarrow> string list" where
  "split_str c [] = [[]]"
| "split_str c (x # xs) =
     (if x = c then [] # split_str c xs
      else (case split_str c xs of
              [] \<Rightarrow> [[x]]
            | s # ss \<Rightarrow> (x # s) # ss))"

text \<open>Reading \<^verbatim>\<open>xs[i]\<close>: \<^verbatim>\<open>undefined\<close> out of range.\<close>

definition at_index :: "'a list \<Rightarrow> nat \<Rightarrow> 'a option" where
  "at_index xs i = (if i < length xs then Some (xs ! i) else None)"

text \<open>Reading \<^verbatim>\<open>xs[xs.length - 1]\<close>: index \<open>-1\<close> of the empty array is \<^verbatim>\<open>undefined\<close>.\<close>

definition at_last :: "'a list \<Rightarrow> 'a option" where
  "at_last xs = (if xs = [] then None else Some (last xs))"

section \<open>The world outside the agents\<close>

text \<open>The argument of \<^verbatim>\<open>octokit.rest.issues.create\<close>.\<close>

record issue_params =
  owner :: string
  repo :: string
  title :: string
  body :: string

text \<open>The argument of \<^verbatim>\<open>client.chat.completions.create\<close>.\<close>

record chat_message =
  role :: string
  content :: string

record chat_request =
  messages :: "chat_message list"
  model :: string

text \<open>
  What a run does to the outside, in order: a call of the issue-creation API (with the
  token the client was built with), a line on \<^verbatim>\<open>console.error\<close>, a call of
  \<^verbatim>\<open>generateText\<close> (with its prompt), a call of the chat-completion API.
\<close>

datatype effect =
    IssuesCreate string issue_params
  | ConsoleError string js_thrown
  | GenerateText string
  | ChatCompletionsCreate chat_request

fun is_api_call :: "effect \<Rightarrow> bool" where
  "is_api_call (IssuesCreate tok p) = True"
| "is_api_call e = False"

fun is_model_call :: "effect \<Rightarrow> bool" where
  "is_model_call (GenerateText p) = True"
| "is_model_call (ChatCompletionsCreate r) = True"
| "is_model_call e = False"

section \<open>The create-issue tool (agents/github-interview-agent/index.ts)\<close>

text \<open>The object the tool handler returns, with the fields of the type at lines 93 to 98.\<close>

record ToolOutcome =
  success :: bool
  url :: "string option"
  message :: string
  error :: "string option"

definition token_missing :: js_thrown where
  "token_missing = JsError
     ''GitHub token is not configured. Please set the GITHUB_TOKEN environment variable.''"

definition invalid_repository :: js_thrown where
  "invalid_repository = JsError ''Invalid repository format. Please use the format: owner/repo''"

text \<open>
  The body of the \<^verbatim>\<open>try\<close> block of \<^verbatim>\<open>execute\<close> (lines 25 to 45). The issue-creation API is
  the parameter \<open>issues_create\<close>: given the token and the request it answers with the
  \<^verbatim>\<open>html_url\<close> of the created issue or throws. The constructor of the client is taken
  not to throw.
\<close>

definition execute_try ::
  "(string \<Rightarrow> issue_params \<Rightarrow> js_thrown + string) \<Rightarrow> string \<Rightarrow> string \<Rightarrow> string \<Rightarrow> string
     \<Rightarrow> effect list \<times> (js_thrown + ToolOutcome)" where
  "execute_try issues_create githubToken repository title' body' =
     (let parts = split_str (CHR ''/'') repository;
          owner' = at_index parts 0;
          repo' = at_index parts 1
      in if \<not> truthy owner' \<or> \<not> truthy repo' then ([], Inl invalid_repository)
         else
           (case (owner', repo') of
              (Some ow, Some re) \<Rightarrow>
                (let params = \<lparr>owner = ow, repo = re, title = title', body = body'\<rparr>
                 in case issues_create githubToken params of
                      Inl e \<Rightarrow> ([IssuesCreate githubToken params], Inl e)
                    | Inr html_url \<Rightarrow>
                        ([IssuesCreate githubToken params],
                         Inr \<lparr>success = True, url = Some html_url,
                              message = ''Issue created successfully in '' @ repository @ ''!'',
                              error = None\<rparr>))
            | _ \<Rightarrow> ([], Inl invalid_repository)))"

text \<open>
  \<^verbatim>\<open>execute\<close> (lines 16 to 56): \<open>env_token\<close> is \<^verbatim>\<open>process.env.GITHUB_TOKEN\<close>. The check of
  the token stands before the \<^verbatim>\<open>try\<close>, so its error leaves \<^verbatim>\<open>execute\<close>; everything
  thrown inside the \<^verbatim>\<open>try\<close> is logged and turned into an outcome.
\<close>

definition execute ::
  "string option \<Rightarrow> (string \<Rightarrow> issue_params \<Rightarrow> js_thrown + string) \<Rightarrow> string \<Rightarrow> string \<Rightarrow> string
     \<Rightarrow> effect list \<times> (js_thrown + ToolOutcome)" where
  "execute env_token issues_create repository title' body' =
     (case env_token of
        None \<Rightarrow> ([], Inl token_missing)
      | Some githubToken \<Rightarrow>
          if githubToken = [] then ([], Inl token_missing)
          else
            (case execute_try issues_create githubToken repository title' body' of
               (es, Inr outcome) \<Rightarrow> (es, Inr outcome)
             | (es, Inl e) \<Rightarrow>
                 (es @ [ConsoleError ''Error creating issue:'' e],
                  Inr \<lparr>success = False, url = None,
                       message = ''Failed to create issue: '' @ error_text e,
                       error = Some (error_text e)\<rparr>)))"

section \<open>The issue-request resolver (agents/github-interview-agent/index.ts)\<close>

text \<open>
  What \<^verbatim>\<open>generateText\<close> resolves to, as far as the agent reads it: the text, the tool
  calls (the agent reads only how many there are; a call is kept as its three
  arguments) and the tool results, each carrying the outcome the tool returned.
\<close>

datatype tool_call = ToolCall string string string

record tool_result =
  result :: ToolOutcome

record gen_result =
  result_text :: string
  toolCalls :: "tool_call list"
  toolResults :: "tool_result list"

text \<open>
  Reading a property of \<^verbatim>\<open>undefined\<close> throws a \<^verbatim>\<open>TypeError\<close>; the wording of its message
  belongs to the engine (this is V8's).
\<close>

definition undefined_read :: "string \<Rightarrow> js_thrown" where
  "undefined_read prop =
     JsError (''Cannot read properties of undefined (reading '' @ [CHR 0x27] @ prop @ [CHR 0x27] @ '')'')"

text \<open>A value of type \<^verbatim>\<open>string | undefined\<close> inside a template literal.\<close>

fun template :: "string option \<Rightarrow> string" where
  "template None = ''undefined''"
| "template (Some s) = s"

text \<open>Lines 88 to 104: the text of the response, from the result of \<^verbatim>\<open>generateText\<close>.\<close>

definition format_result :: "gen_result \<Rightarrow> js_thrown + string" where
  "format_result r =
     (if length (toolCalls r) = 0 then Inr (result_text r)
      else
        (case at_last (toolResults r) of
           None \<Rightarrow> Inl (undefined_read ''success'')
         | Some lastToolCall \<Rightarrow>
             (let issueResult = result lastToolCall
              in if success issueResult \<and> truthy (url issueResult)
                 then Inr (message issueResult @ '' View it at: '' @ template (url issueResult))
                 else Inr (message issueResult))))"

text \<open>
  \<^verbatim>\<open>Agent\<close> (lines 59 to 113). \<open>requestText\<close> is what \<^verbatim>\<open>req.data.text()\<close> resolved to
  (\<open>None\<close> for an absent text); \<open>generateText\<close> stands for the call of lines 72 to 86, whose
  model, system instruction, tool and step limit are fixed, so that only the prompt varies:
  it answers with what it did to the outside (the tool's calls) and its result, or throws.
  The agent answers with the text it hands to \<^verbatim>\<open>resp.text\<close>.
\<close>

definition Agent ::
  "(string \<Rightarrow> effect list \<times> (js_thrown + gen_result)) \<Rightarrow> string option \<Rightarrow> effect list \<times> string" where
  "Agent generateText requestText =
     (case requestText of
        None \<Rightarrow> ([], ''Please provide details about the issue you want to create.'')
      | Some prompt \<Rightarrow>
          if prompt = [] then ([], ''Please provide details about the issue you want to create.'')
          else
            (let (es, answer) = generateText prompt;
                 tried = (case answer of Inl e \<Rightarrow> Inl e | Inr r \<Rightarrow> format_result r)
             in case tried of
                  Inr txt \<Rightarrow> (GenerateText prompt # es, txt)
                | Inl e \<Rightarrow>
                    (GenerateText prompt # es @ [ConsoleError ''Error in GitHub issue agent:'' e],
                     ''An error occurred while processing your request: '' @ error_text e)))"

section \<open>The simple completion relay (the second agent)\<close>

text \<open>
  The answer of the chat-completion API, as far as the agent reads it: the choices, each
  with a message whose content is a string or \<^verbatim>\<open>null\<close>.
\<close>

record chat_choice =
  choice_content :: "string option"

record chat_completion =
  choices :: "chat_choice list"

text \<open>\<^verbatim>\<open>a ?? b\<close>: \<open>b\<close> only when \<open>a\<close> is \<^verbatim>\<open>null\<close> or \<^verbatim>\<open>undefined\<close>.\<close>

fun nullish_or :: "string option \<Rightarrow> string \<Rightarrow> string" where
  "nullish_or None d = d"
| "nullish_or (Some s) d = s"

text \<open>
  The relay agent (22 lines): nothing is caught, so what the API throws leaves the agent.
\<close>

definition Agent_relay ::
  "(chat_request \<Rightarrow> js_thrown + chat_completion) \<Rightarrow> string option \<Rightarrow> effect list \<times> (js_thrown + string)" where
  "Agent_relay create requestText =
     (let request = \<lparr>messages = [\<lparr>role = ''user'', content = nullish_or requestText ''Say this is a test''\<rparr>],
                     model = ''gpt-4o''\<rparr>
      in case create request of
           Inl e \<Rightarrow> ([ChatCompletionsCreate request], Inl e)
         | Inr completion \<Rightarrow>
             ([ChatCompletionsCreate request],
              Inr (nullish_or (case at_index (choices completion) 0 of
                                 None \<Rightarrow> None
                               | Some choice \<Rightarrow> choice_content choice)
                     ''Something went wrong'')))"

section \<open>Predicates of the specification\<close>

text \<open>
  A repository string "consists of exactly one \<open>/\<close> separating two non-empty segments":
  it has one \<open>/\<close>, which is neither its first nor its last character.
\<close>

definition owner_repo_format :: "string \<Rightarrow> bool" where
  "owner_repo_format s \<longleftrightarrow>
     count_list s (CHR ''/'') = 1 \<and> \<not> prefix ''/'' s \<and> \<not> suffix ''/'' s"

text \<open>
  The text before the first \<open>/\<close> of a string, and the text between its first \<open>/\<close> and
  the next one (or the end); the latter is empty when there is no \<open>/\<close>.
\<close>

definition owner_part :: "string \<Rightarrow> string" where
  "owner_part s = takeWhile (\<lambda>x. x \<noteq> CHR ''/'') s"

definition repo_part :: "string \<Rightarrow> string" where
  "repo_part s = takeWhile (\<lambda>x. x \<noteq> CHR ''/'') (drop 1 (dropWhile (\<lambda>x. x \<noteq> CHR ''/'') s))"

text \<open>The log of a run holds no call of the issue-creation API, of a model.\<close>

definition no_api_call :: "effect list \<Rightarrow> bool" where
  "no_api_call es \<longleftrightarrow> filter is_api_call es = []"

definition no_model_call :: "effect list \<Rightarrow> bool" where
  "no_model_call es \<longleftrightarrow> filter is_model_call es = []"

section \<open>Concrete collaborators for the examples\<close>

text \<open>An issue-creation API that always succeeds, and one that always fails.\<close>

definition api_ok :: "string \<Rightarrow> issue_params \<Rightarrow> js_thrown + string" where
  "api_ok tok p = Inr (''https://github.com/'' @ owner p @ ''/'' @ repo p @ ''/issues/42'')"

definition api_not_found :: "string \<Rightarrow> issue_params \<Rightarrow> js_thrown + string" where
  "api_not_found tok p = Inl (JsError ''Not Found'')"

text \<open>Outcomes and results of \<^verbatim>\<open>generateText\<close> for the examples.\<close>

definition outcome_ok :: ToolOutcome where
  "outcome_ok = \<lparr>success = True, url = Some ''https://github.com/acme/widgets/issues/42'',
     message = ''Issue created successfully in acme/widgets!'', error = None\<rparr>"

definition outcome_failed :: ToolOutcome where
  "outcome_failed = \<lparr>success = False, url = None,
     message = ''Failed to create issue: Not Found'', error = Some ''Not Found''\<rparr>"

definition outcome_empty_url :: ToolOutcome where
  "outcome_empty_url = \<lparr>success = True, url = Some [],
     message = ''Issue created successfully in acme/widgets!'', error = None\<rparr>"

definition outcome_view_it :: ToolOutcome where
  "outcome_view_it = \<lparr>success = False, url = None,
     message = ''Failed to create issue: View it at: status page'',
     error = Some ''View it at: status page''\<rparr>"

definition one_call :: "tool_call list" where
  "one_call = [ToolCall ''acme/widgets'' ''Crash on startup'' ''A null pointer on launch'']"

definition gen_with :: "ToolOutcome list \<Rightarrow> string \<Rightarrow> effect list \<times> (js_thrown + gen_result)" where
  "gen_with outs prompt =
     ([], Inr \<lparr>result_text = ''Done.'', toolCalls = one_call,
               toolResults = map (\<lambda>out. \<lparr>result = out\<rparr>) outs\<rparr>)"

definition gen_plain :: "string \<Rightarrow> effect list \<times> (js_thrown + gen_result)" where
  "gen_plain prompt =
     ([], Inr \<lparr>result_text = ''Which repository should the issue go to?'',
               toolCalls = [], toolResults = []\<rparr>)"

text \<open>
  An interaction of several steps. By the interface of the library that provides
  \<^verbatim>\<open>generateText\<close> (it is not part of this repository), the text, the tool calls and the
  tool results of the value it resolves to are those of the last step: the tool calls of
  an earlier step are not among \<^verbatim>\<open>result.toolCalls\<close>.
\<close>

record gen_step =
  step_text :: string
  step_toolCalls :: "tool_call list"
  step_toolResults :: "tool_result list"

fun final_result :: "gen_step \<Rightarrow> gen_step list \<Rightarrow> gen_result" where
  "final_result st [] =
     \<lparr>result_text = step_text st, toolCalls = step_toolCalls st,
      toolResults = step_toolResults st\<rparr>"
| "final_result st (st' # sts) = final_result st' sts"

text \<open>
  The ordinary run of two steps: the model calls the tool in the first step and answers
  with text in the second.
\<close>

definition call_step :: "ToolOutcome \<Rightarrow> gen_step" where
  "call_step out =
     \<lparr>step_text = [], step_toolCalls = one_call, step_toolResults = [\<lparr>result = out\<rparr>]\<rparr>"

definition text_step :: gen_step where
  "text_step = \<lparr>step_text = ''The tool has answered.'', step_toolCalls = [],
                step_toolResults = []\<rparr>"

definition gen_two_steps :: "ToolOutcome \<Rightarrow> string \<Rightarrow> effect list \<times> (js_thrown + gen_result)" where
  "gen_two_steps out prompt = ([], Inr (final_result (call_step out) [text_step]))"

definition chat_ok :: "chat_request \<Rightarrow> js_thrown + chat_completion" where
  "chat_ok request = Inr \<lparr>choices = [\<lparr>choice_content = Some ''This is a test''\<rparr>]\<rparr>"

section \<open>Splitting a repository string\<close>

lemma split_str_no_sep: "c \<notin> set s \<Longrightarrow> split_str c s = [s]"
  by (induction s) auto

lemma split_str_sep: "c \<notin> set a \<Longrightarrow> split_str c (a @ c # r) = a # split_str c r"
  by (induction a) auto

lemma split_str_head: "\<exists>ss. split_str c s = takeWhile (\<lambda>x. x \<noteq> c) s # ss"
  by (induction s) (auto split: list.splits)

lemma split_str_first: "at_index (split_str (CHR ''/'') s) 0 = Some (owner_part s)"
proof -
  obtain ss where "split_str (CHR ''/'') s = owner_part s # ss"
    using split_str_head [of "CHR ''/''" s] by (auto simp: owner_part_def)
  then show ?thesis by (simp add: at_index_def)
qed

lemma split_str_second_none:
  assumes "CHR ''/'' \<notin> set s"
  shows "at_index (split_str (CHR ''/'') s) (Suc 0) = None"
  using assms by (simp add: split_str_no_sep at_index_def)

lemma split_str_second_some:
  assumes "CHR ''/'' \<in> set s"
  shows "at_index (split_str (CHR ''/'') s) (Suc 0) = Some (repo_part s)"
proof -
  let ?P = "\<lambda>x. x \<noteq> CHR ''/''"
  from assms have "dropWhile ?P s \<noteq> []" by simp
  moreover have "\<not> ?P (hd (dropWhile ?P s))" if "dropWhile ?P s \<noteq> []"
    using that by (rule hd_dropWhile)
  ultimately obtain r where r: "dropWhile ?P s = CHR ''/'' # r"
    by (cases "dropWhile ?P s") auto
  have s: "s = takeWhile ?P s @ CHR ''/'' # r"
    using takeWhile_dropWhile_id [of ?P s] r by simp
  have notin: "CHR ''/'' \<notin> set (takeWhile ?P s)"
    by (auto dest: set_takeWhileD)
  have "split_str (CHR ''/'') s = takeWhile ?P s # split_str (CHR ''/'') r"
    using split_str_sep [OF notin, of r] s by simp
  moreover obtain ss where "split_str (CHR ''/'') r = takeWhile ?P r # ss"
    using split_str_head [of "CHR ''/''" r] by auto
  moreover have "repo_part s = takeWhile ?P r"
    by (simp add: repo_part_def r)
  ultimately show ?thesis by (simp add: at_index_def)
qed

lemma repo_part_no_slash: "CHR ''/'' \<notin> set s \<Longrightarrow> repo_part s = []"
proof -
  assume "CHR ''/'' \<notin> set s"
  then have d: "dropWhile (\<lambda>x. x \<noteq> CHR ''/'') s = []" by auto
  show ?thesis unfolding repo_part_def d by simp
qed

section \<open>The tool handler\<close>

lemma execute_try_cases:
  "execute_try issues_create githubToken repository title' body' =
     (if owner_part repository = [] \<or> repo_part repository = [] then ([], Inl invalid_repository)
      else (let params = \<lparr>owner = owner_part repository, repo = repo_part repository,
                           title = title', body = body'\<rparr>
            in case issues_create githubToken params of
                 Inl e \<Rightarrow> ([IssuesCreate githubToken params], Inl e)
               | Inr html_url \<Rightarrow>
                   ([IssuesCreate githubToken params],
                    Inr \<lparr>success = True, url = Some html_url,
                         message = ''Issue created successfully in '' @ repository @ ''!'',
                         error = None\<rparr>)))"
proof (cases "CHR ''/'' \<in> set repository")
  case True
  then show ?thesis
    by (simp add: execute_try_def split_str_first split_str_second_some Let_def)
next
  case False
  then show ?thesis
    by (simp add: execute_try_def split_str_first split_str_second_none repo_part_no_slash Let_def)
qed


lemma execute_cases:
  "execute env_token issues_create repository title' body' =
     (case env_token of
        None \<Rightarrow> ([], Inl token_missing)
      | Some githubToken \<Rightarrow>
          if githubToken = [] then ([], Inl token_missing)
          else if owner_part repository = [] \<or> repo_part repository = []
          then ([ConsoleError ''Error creating issue:'' invalid_repository],
                Inr \<lparr>success = False, url = None,
                     message = ''Failed to create issue: '' @ error_text invalid_repository,
                     error = Some (error_text invalid_repository)\<rparr>)
          else (let params = \<lparr>owner = owner_part repository, repo = repo_part repository,
                               title = title', body = body'\<rparr>
                in case issues_create githubToken params of
                     Inl e \<Rightarrow>
                       ([IssuesCreate githubToken params, ConsoleError ''Error creating issue:'' e],
                        Inr \<lparr>success = False, url = None,
                             message = ''Failed to create issue: '' @ error_text e,
                             error = Some (error_text e)\<rparr>)
                   | Inr html_url \<Rightarrow>
                       ([IssuesCreate githubToken params],
                        Inr \<lparr>success = True, url = Some html_url,
                             message = ''Issue created successfully in '' @ repository @ ''!'',
                             error = None\<rparr>)))"
  by (simp add: execute_def execute_try_cases Let_def split: option.splits sum.splits)

lemma sublist_invalid:
  "sublist ''Invalid repository format'' (''Failed to create issue: '' @ error_text invalid_repository)"
  by (simp add: invalid_repository_def sublist_Cons_right)

text \<open>
  What the check of lines 26 to 31 does refuse, with a token configured: a repository
  string whose text before the first \<open>/\<close> is empty, or which has no \<open>/\<close>, or whose text
  between the first \<open>/\<close> and the next one (or the end) is empty. By
  \<open>malformed_at_most_one_slash\<close> below, these are all the malformed strings with at most
  one \<open>/\<close>.
\<close>

lemma execute_refuses_missing_segment:
  assumes "truthy env_token"
    and "owner_part repository = [] \<or> repo_part repository = []"
  shows "\<exists>es out. execute env_token issues_create repository title' body' = (es, Inr out)
           \<and> \<not> success out
           \<and> sublist ''Invalid repository format'' (message out)
           \<and> no_api_call es"
proof -
  from assms(1) obtain tok where tok: "env_token = Some tok" "tok \<noteq> []"
    by (cases env_token) auto
  show ?thesis
    using assms(2) tok sublist_invalid
    by (simp add: execute_cases no_api_call_def)
qed

lemma slash_decomposition:
  assumes "CHR ''/'' \<in> set s"
  obtains r where "s = owner_part s @ CHR ''/'' # r"
    and "repo_part s = takeWhile (\<lambda>x. x \<noteq> CHR ''/'') r"
    and "count_list s (CHR ''/'') = Suc (count_list r (CHR ''/''))"
proof -
  let ?P = "\<lambda>x. x \<noteq> CHR ''/''"
  from assms have "dropWhile ?P s \<noteq> []" by simp
  moreover have "\<not> ?P (hd (dropWhile ?P s))" if "dropWhile ?P s \<noteq> []"
    using that by (rule hd_dropWhile)
  ultimately obtain r where r: "dropWhile ?P s = CHR ''/'' # r"
    by (cases "dropWhile ?P s") auto
  have s: "s = owner_part s @ CHR ''/'' # r"
    using takeWhile_dropWhile_id [of ?P s] r by (simp add: owner_part_def)
  have "CHR ''/'' \<notin> set (owner_part s)"
    by (auto simp: owner_part_def dest: set_takeWhileD)
  then have "count_list (owner_part s) (CHR ''/'') = 0"
    by (simp add: count_list_0_iff)
  then have "count_list (owner_part s @ CHR ''/'' # r) (CHR ''/'') = Suc (count_list r (CHR ''/''))"
    by simp
  with s have c: "count_list s (CHR ''/'') = Suc (count_list r (CHR ''/''))" by simp
  have rp: "repo_part s = takeWhile ?P r" by (simp add: repo_part_def r)
  from s rp c show thesis by (rule that)
qed

lemma owner_repo_format_parts:
  assumes "owner_repo_format s"
  shows "owner_part s \<noteq> [] \<and> repo_part s \<noteq> []"
proof -
  from assms have c: "count_list s (CHR ''/'') = 1" and p: "\<not> prefix ''/'' s" and q: "\<not> suffix ''/'' s"
    by (simp_all add: owner_repo_format_def)
  from c have "CHR ''/'' \<in> set s" by (metis count_list_0_iff zero_neq_one)
  then obtain r where s: "s = owner_part s @ CHR ''/'' # r"
    and rp: "repo_part s = takeWhile (\<lambda>x. x \<noteq> CHR ''/'') r"
    and cnt: "count_list s (CHR ''/'') = Suc (count_list r (CHR ''/''))"
    by (rule slash_decomposition)
  from c cnt have "CHR ''/'' \<notin> set r" by (simp add: count_list_0_iff)
  then have "takeWhile (\<lambda>x. x \<noteq> CHR ''/'') r = r" by auto
  with rp have rp': "repo_part s = r" by simp
  have "r \<noteq> []"
  proof
    assume "r = []"
    with s have "s = owner_part s @ ''/''" by simp
    then have "suffix ''/'' s" by (metis suffixI)
    with q show False by contradiction
  qed
  moreover have "owner_part s \<noteq> []"
  proof
    assume "owner_part s = []"
    with s have "s = ''/'' @ r" by simp
    then have "prefix ''/'' s" by (metis prefixI)
    with p show False by contradiction
  qed
  ultimately show ?thesis using rp' by simp
qed

lemma malformed_at_most_one_slash:
  assumes "\<not> owner_repo_format s" and "count_list s (CHR ''/'') \<le> 1"
  shows "owner_part s = [] \<or> repo_part s = []"
proof (cases "CHR ''/'' \<in> set s")
  case False
  then show ?thesis by (simp add: repo_part_no_slash)
next
  case True
  then obtain r where s: "s = owner_part s @ CHR ''/'' # r"
    and rp: "repo_part s = takeWhile (\<lambda>x. x \<noteq> CHR ''/'') r"
    and cnt: "count_list s (CHR ''/'') = Suc (count_list r (CHR ''/''))"
    by (rule slash_decomposition)
  from cnt assms(2) have one: "count_list s (CHR ''/'') = 1" and "count_list r (CHR ''/'') = 0"
    by simp_all
  then have "CHR ''/'' \<notin> set r" by (simp add: count_list_0_iff)
  then have "takeWhile (\<lambda>x. x \<noteq> CHR ''/'') r = r" by auto
  with rp have rp': "repo_part s = r" by simp
  from assms(1) one have "prefix ''/'' s \<or> suffix ''/'' s"
    by (simp add: owner_repo_format_def)
  then show ?thesis
  proof
    assume "prefix ''/'' s"
    then obtain t where "s = CHR ''/'' # t" by (auto simp: prefix_def)
    then have "owner_part s = []" by (simp add: owner_part_def)
    then show ?thesis ..
  next
    assume "suffix ''/'' s"
    then obtain t where t: "s = t @ ''/''" by (auto simp: suffix_def)
    have "r = []"
    proof (rule ccontr)
      assume "r \<noteq> []"
      then have "last s = last r" using s by (metis last_appendR last_ConsR list.distinct(1))
      moreover from t have "last s = CHR ''/''" by simp
      ultimately have "CHR ''/'' \<in> set r" using \<open>r \<noteq> []\<close> by (metis last_in_set)
      with \<open>CHR ''/'' \<notin> set r\<close> show False by contradiction
    qed
    with rp' have "repo_part s = []" by simp
    then show ?thesis ..
  qed
qed


text \<open>
  Claim C1: every repository string that is not of the form owner/repo is refused, with an
  outcome whose message contains "Invalid repository format" and without a call of the
  API. The code misses the strings with further segments: \<open>a/b/c\<close> is not of the form
  owner/repo, yet with a token configured only its first two segments are read, the API is
  called for \<open>a/b\<close>, and the outcome is a success whose message names \<open>a/b/c\<close>.
\<close>

theorem execute_accepts_extra_segments:
  "\<not> owner_repo_format ''a/b/c''
   \<and> execute (Some ''ghp_token'') api_ok ''a/b/c'' ''Crash'' ''Details'' =
       ([IssuesCreate ''ghp_token'' \<lparr>owner = ''a'', repo = ''b'', title = ''Crash'', body = ''Details''\<rparr>],
        Inr \<lparr>success = True, url = Some ''https://github.com/a/b/issues/42'',
             message = ''Issue created successfully in a/b/c!'', error = None\<rparr>)
   \<and> \<not> no_api_call (fst (execute (Some ''ghp_token'') api_ok ''a/b/c'' ''Crash'' ''Details''))"
  by (simp add: owner_repo_format_def execute_def execute_try_def at_index_def api_ok_def
        no_api_call_def)

text \<open>
  Claim C2, as the code has it. With the token missing or empty \<^verbatim>\<open>execute\<close> throws the
  configuration error, which the \<^verbatim>\<open>try\<close> does not cover, and calls nothing. With a token
  configured it never throws, and what it returns is fixed by what happens inside the
  \<^verbatim>\<open>try\<close>: a repository that the check refuses gives the outcome with \<open>success = False\<close>
  whose error is the text of the validation error and whose message is
  "Failed to create issue: " followed by that text; an API call that throws \<open>e\<close> gives the
  outcome with \<open>success = False\<close> whose error is the text of \<open>e\<close> and whose message is
  "Failed to create issue: " followed by that text; an API call that answers gives the
  success outcome.
\<close>

theorem execute_throws_only_without_token:
  "(\<not> truthy env_token \<longrightarrow>
      execute env_token issues_create repository title' body' = ([], Inl token_missing))
   \<and> (truthy env_token \<longrightarrow>
        (\<exists>es out. execute env_token issues_create repository title' body' = (es, Inr out)))
   \<and> (\<forall>tok. env_token = Some tok \<and> tok \<noteq> []
          \<and> (owner_part repository = [] \<or> repo_part repository = []) \<longrightarrow>
        execute env_token issues_create repository title' body' =
          ([ConsoleError ''Error creating issue:'' invalid_repository],
           Inr \<lparr>success = False, url = None,
                message = ''Failed to create issue: '' @ error_text invalid_repository,
                error = Some (error_text invalid_repository)\<rparr>))
   \<and> (\<forall>tok e. env_token = Some tok \<and> tok \<noteq> []
          \<and> owner_part repository \<noteq> [] \<and> repo_part repository \<noteq> []
          \<and> issues_create tok \<lparr>owner = owner_part repository, repo = repo_part repository,
                                title = title', body = body'\<rparr> = Inl e \<longrightarrow>
        execute env_token issues_create repository title' body' =
          ([IssuesCreate tok \<lparr>owner = owner_part repository, repo = repo_part repository,
                               title = title', body = body'\<rparr>,
            ConsoleError ''Error creating issue:'' e],
           Inr \<lparr>success = False, url = None,
                message = ''Failed to create issue: '' @ error_text e,
                error = Some (error_text e)\<rparr>))
   \<and> (\<forall>tok u. env_token = Some tok \<and> tok \<noteq> []
          \<and> owner_part repository \<noteq> [] \<and> repo_part repository \<noteq> []
          \<and> issues_create tok \<lparr>owner = owner_part repository, repo = repo_part repository,
                                title = title', body = body'\<rparr> = Inr u \<longrightarrow>
        execute env_token issues_create repository title' body' =
          ([IssuesCreate tok \<lparr>owner = owner_part repository, repo = repo_part repository,
                               title = title', body = body'\<rparr>],
           Inr \<lparr>success = True, url = Some u,
                message = ''Issue created successfully in '' @ repository @ ''!'',
                error = None\<rparr>))"
proof (cases env_token)
  case None
  then show ?thesis by (simp add: execute_def)
next
  case (Some tok)
  show ?thesis
  proof (cases "tok = []")
    case True
    with Some show ?thesis by (simp add: execute_def)
  next
    case False
    with Some show ?thesis
      by (auto simp: execute_cases Let_def split: sum.splits)
  qed
qed

theorem execute_throws_only_without_token_witness:
  "truthy (Some ''ghp_token'') \<and> \<not> truthy None
   \<and> owner_part ''acme/widgets'' = ''acme'' \<and> repo_part ''acme/widgets'' = ''widgets''
   \<and> api_not_found ''ghp_token''
        \<lparr>owner = ''acme'', repo = ''widgets'', title = ''Crash'', body = ''Details''\<rparr> =
       Inl (JsError ''Not Found'')
   \<and> execute (Some ''ghp_token'') api_not_found ''acme/widgets'' ''Crash'' ''Details'' =
       ([IssuesCreate ''ghp_token''
           \<lparr>owner = ''acme'', repo = ''widgets'', title = ''Crash'', body = ''Details''\<rparr>,
         ConsoleError ''Error creating issue:'' (JsError ''Not Found'')],
        Inr \<lparr>success = False, url = None, message = ''Failed to create issue: Not Found'',
             error = Some ''Not Found''\<rparr>)
   \<and> repo_part ''widgets'' = []
   \<and> execute (Some ''ghp_token'') api_not_found ''widgets'' ''Crash'' ''Details'' =
       ([ConsoleError ''Error creating issue:'' invalid_repository],
        Inr \<lparr>success = False, url = None,
             message = ''Failed to create issue: Invalid repository format. Please use the format: owner/repo'',
             error = Some ''Invalid repository format. Please use the format: owner/repo''\<rparr>)
   \<and> execute None api_not_found ''acme/widgets'' ''Crash'' ''Details'' = ([], Inl token_missing)"
proof -
  have parts: "owner_part ''acme/widgets'' = ''acme''" "repo_part ''acme/widgets'' = ''widgets''"
    "repo_part ''widgets'' = []"
    by (simp_all add: owner_part_def repo_part_def)
  have api: "api_not_found ''ghp_token''
        \<lparr>owner = ''acme'', repo = ''widgets'', title = ''Crash'', body = ''Details''\<rparr> =
       Inl (JsError ''Not Found'')"
    by (simp add: api_not_found_def)
  from parts api show ?thesis
    using execute_throws_only_without_token
            [of "Some ''ghp_token''" api_not_found "''acme/widgets''" "''Crash''" "''Details''"]
      execute_throws_only_without_token
            [of "Some ''ghp_token''" api_not_found "''widgets''" "''Crash''" "''Details''"]
      execute_throws_only_without_token
            [of None api_not_found "''acme/widgets''" "''Crash''" "''Details''"]
    by (simp add: invalid_repository_def)
qed

text \<open>
  Claim C2 as stated fails: with the token absent, or empty, \<^verbatim>\<open>execute\<close> throws.
\<close>

theorem execute_throws_without_token:
  "execute None api_ok ''acme/widgets'' ''Crash'' ''Details'' = ([], Inl token_missing)
   \<and> execute (Some []) api_ok ''acme/widgets'' ''Crash'' ''Details'' = ([], Inl token_missing)"
  by (simp add: execute_def)

text \<open>
  Claim C9. Every outcome the handler returns has a non-empty message; a success has a url
  and no error; a failure has an error and no url.
\<close>

theorem tool_outcome_shape:
  assumes "execute env_token issues_create repository title' body' = (es, Inr out)"
  shows "message out \<noteq> []
         \<and> (success out \<longrightarrow> url out \<noteq> None \<and> error out = None)
         \<and> (\<not> success out \<longrightarrow> error out \<noteq> None \<and> url out = None)"
  using assms
  by (auto simp: execute_cases Let_def split: option.splits if_splits sum.splits)

theorem tool_outcome_shape_witness:
  "execute (Some ''ghp_token'') api_ok ''acme/widgets'' ''Crash'' ''Details'' =
     ([IssuesCreate ''ghp_token''
         \<lparr>owner = ''acme'', repo = ''widgets'', title = ''Crash'', body = ''Details''\<rparr>],
      Inr outcome_ok)
   \<and> message outcome_ok \<noteq> []
   \<and> success outcome_ok \<and> url outcome_ok \<noteq> None \<and> error outcome_ok = None"
proof -
  have h: "execute (Some ''ghp_token'') api_ok ''acme/widgets'' ''Crash'' ''Details'' =
     ([IssuesCreate ''ghp_token''
         \<lparr>owner = ''acme'', repo = ''widgets'', title = ''Crash'', body = ''Details''\<rparr>],
      Inr outcome_ok)"
    by (simp add: execute_def execute_try_def at_index_def api_ok_def outcome_ok_def)
  have "success outcome_ok" by (simp add: outcome_ok_def)
  with h tool_outcome_shape [OF h] show ?thesis by simp
qed


section \<open>The resolver\<close>

lemma Agent_model_answer:
  assumes "requestText = Some prompt" and "prompt \<noteq> []"
    and "generateText prompt = (es, Inr r)"
  shows "Agent generateText requestText =
           (case format_result r of
              Inr txt \<Rightarrow> (GenerateText prompt # es, txt)
            | Inl e \<Rightarrow>
                (GenerateText prompt # es @ [ConsoleError ''Error in GitHub issue agent:'' e],
                 ''An error occurred while processing your request: '' @ error_text e))"
  using assms by (simp add: Agent_def split: sum.splits)

lemma format_result_last:
  assumes "toolCalls r \<noteq> []" and "toolResults r = rs @ [t]"
  shows "format_result r =
           Inr (if success (result t) \<and> truthy (url (result t))
                then message (result t) @ '' View it at: '' @ template (url (result t))
                else message (result t))"
  using assms by (simp add: format_result_def at_last_def Let_def)

text \<open>
  Claim C3, as the code has it. When the value \<^verbatim>\<open>generateText\<close> resolved to lists at least
  one tool call (\<^verbatim>\<open>result.toolCalls\<close>, the calls of the last step) and the outcome of the last
  of its tool results is a success with a url that is present and not the empty string,
  the agent answers "\<open>message\<close> View it at: \<open>url\<close>".
\<close>

theorem Agent_reports_created_issue:
  assumes "requestText = Some prompt" and "prompt \<noteq> []"
    and "generateText prompt = (es, Inr r)"
    and "toolCalls r \<noteq> []" and "toolResults r = rs @ [t]"
    and "success (result t)" and "url (result t) = Some u" and "u \<noteq> []"
  shows "snd (Agent generateText requestText) = message (result t) @ '' View it at: '' @ u"
  using assms by (simp add: Agent_model_answer format_result_last)

theorem Agent_reports_created_issue_witness:
  "snd (Agent (gen_with [outcome_failed, outcome_ok]) (Some ''Create an issue'')) =
     ''Issue created successfully in acme/widgets! View it at: https://github.com/acme/widgets/issues/42''"
proof -
  have "snd (Agent (gen_with [outcome_failed, outcome_ok]) (Some ''Create an issue'')) =
          message (result \<lparr>result = outcome_ok\<rparr>) @ '' View it at: '' @
          ''https://github.com/acme/widgets/issues/42''"
    by (rule Agent_reports_created_issue
          [where prompt = "''Create an issue''" and es = "[]"
             and r = "\<lparr>result_text = ''Done.'', toolCalls = one_call,
                        toolResults = [\<lparr>result = outcome_failed\<rparr>, \<lparr>result = outcome_ok\<rparr>]\<rparr>"
             and rs = "[\<lparr>result = outcome_failed\<rparr>]"])
       (simp_all add: gen_with_def one_call_def outcome_ok_def)
  then show ?thesis by (simp add: outcome_ok_def)
qed

text \<open>
  Claim C3 as stated fails twice. For a url that is present but empty: the empty string is
  falsy, so the agent answers with the message alone. And in the ordinary run of two
  steps, where the model calls the tool in the first step and the tool succeeds with a
  url, but the second step is text: the resolved value lists no tool call, so the agent
  answers with the model's text.
\<close>

theorem Agent_empty_url_counterexample:
  "success outcome_empty_url \<and> url outcome_empty_url = Some []
   \<and> snd (Agent (gen_with [outcome_empty_url]) (Some ''Create an issue'')) =
       ''Issue created successfully in acme/widgets!''
   \<and> snd (Agent (gen_with [outcome_empty_url]) (Some ''Create an issue'')) \<noteq>
       message outcome_empty_url @ '' View it at: '' @ []
   \<and> step_toolCalls (call_step outcome_ok) \<noteq> []
   \<and> step_toolResults (call_step outcome_ok) = [\<lparr>result = outcome_ok\<rparr>]
   \<and> success outcome_ok
   \<and> url outcome_ok = Some ''https://github.com/acme/widgets/issues/42''
   \<and> snd (Agent (gen_two_steps outcome_ok) (Some ''Create an issue'')) =
       ''The tool has answered.''
   \<and> snd (Agent (gen_two_steps outcome_ok) (Some ''Create an issue'')) \<noteq>
       message outcome_ok @ '' View it at: '' @ ''https://github.com/acme/widgets/issues/42''"
  by (simp add: Agent_def gen_with_def gen_two_steps_def call_step_def text_step_def
        one_call_def format_result_def at_last_def Let_def outcome_empty_url_def outcome_ok_def)

text \<open>
  Claim C4, as the code has it. When the value \<^verbatim>\<open>generateText\<close> resolved to lists at least
  one tool call (\<^verbatim>\<open>result.toolCalls\<close>, the calls of the last step) and the outcome of the last
  of its tool results is a failure, the agent answers with exactly the message of that
  outcome: no " View it at: " and url is appended to it, and the answer contains
  "View it at:" only if that message does.
\<close>

theorem Agent_reports_failure_message:
  assumes "requestText = Some prompt" and "prompt \<noteq> []"
    and "generateText prompt = (es, Inr r)"
    and "toolCalls r \<noteq> []" and "toolResults r = rs @ [t]"
    and "\<not> success (result t)"
  shows "snd (Agent generateText requestText) = message (result t)
         \<and> (\<forall>u. snd (Agent generateText requestText) \<noteq>
                  message (result t) @ '' View it at: '' @ u)
         \<and> (sublist ''View it at:'' (snd (Agent generateText requestText))
              \<longleftrightarrow> sublist ''View it at:'' (message (result t)))"
  using assms by (simp add: Agent_model_answer format_result_last split: option.splits)

theorem Agent_reports_failure_message_witness:
  "snd (Agent (gen_with [outcome_ok, outcome_failed]) (Some ''Create an issue'')) =
     ''Failed to create issue: Not Found''
   \<and> \<not> sublist ''View it at:'' (snd (Agent (gen_with [outcome_ok, outcome_failed]) (Some ''Create an issue'')))"
proof -
  have "snd (Agent (gen_with [outcome_ok, outcome_failed]) (Some ''Create an issue'')) =
          message (result \<lparr>result = outcome_failed\<rparr>)
        \<and> (\<forall>u. snd (Agent (gen_with [outcome_ok, outcome_failed]) (Some ''Create an issue'')) \<noteq>
                  message (result \<lparr>result = outcome_failed\<rparr>) @ '' View it at: '' @ u)
        \<and> (sublist ''View it at:'' (snd (Agent (gen_with [outcome_ok, outcome_failed]) (Some ''Create an issue'')))
              \<longleftrightarrow> sublist ''View it at:'' (message (result \<lparr>result = outcome_failed\<rparr>)))"
    by (rule Agent_reports_failure_message
          [where prompt = "''Create an issue''" and es = "[]"
             and r = "\<lparr>result_text = ''Done.'', toolCalls = one_call,
                        toolResults = [\<lparr>result = outcome_ok\<rparr>, \<lparr>result = outcome_failed\<rparr>]\<rparr>"
             and rs = "[\<lparr>result = outcome_ok\<rparr>]"])
       (simp_all add: gen_with_def one_call_def outcome_failed_def)
  then show ?thesis by (simp add: outcome_failed_def sublist_Cons_right)
qed

text \<open>
  Claim C4 as stated fails twice. When the message of the failed outcome itself contains
  "View it at:", as it does when the error text of the API does, so does the answer. And in
  the ordinary run of two steps, where the model calls the tool in the first step and the
  tool fails, but the second step is text: the resolved value lists no tool call, so the
  agent answers with the model's text, not with the message of the outcome.
\<close>

theorem Agent_failure_message_may_contain_view_it_at:
  "\<not> success outcome_view_it
   \<and> snd (Agent (gen_with [outcome_view_it]) (Some ''Create an issue'')) =
       ''Failed to create issue: View it at: status page''
   \<and> sublist ''View it at:'' (snd (Agent (gen_with [outcome_view_it]) (Some ''Create an issue'')))
   \<and> step_toolCalls (call_step outcome_failed) \<noteq> []
   \<and> step_toolResults (call_step outcome_failed) = [\<lparr>result = outcome_failed\<rparr>]
   \<and> \<not> success outcome_failed
   \<and> snd (Agent (gen_two_steps outcome_failed) (Some ''Create an issue'')) =
       ''The tool has answered.''
   \<and> snd (Agent (gen_two_steps outcome_failed) (Some ''Create an issue'')) \<noteq>
       message outcome_failed"
proof -
  have c: "step_toolCalls (call_step outcome_failed) \<noteq> []
     \<and> step_toolResults (call_step outcome_failed) = [\<lparr>result = outcome_failed\<rparr>]
     \<and> \<not> success outcome_failed
     \<and> snd (Agent (gen_two_steps outcome_failed) (Some ''Create an issue'')) =
         ''The tool has answered.''
     \<and> snd (Agent (gen_two_steps outcome_failed) (Some ''Create an issue'')) \<noteq>
         message outcome_failed"
    by (simp add: Agent_def gen_two_steps_def call_step_def text_step_def one_call_def
          format_result_def outcome_failed_def)
  have a: "snd (Agent (gen_with [outcome_view_it]) (Some ''Create an issue'')) =
       ''Failed to create issue: View it at: status page''"
    by (simp add: Agent_def gen_with_def one_call_def format_result_def at_last_def Let_def outcome_view_it_def)
  have "''Failed to create issue: View it at: status page'' =
          ''Failed to create issue: '' @ ''View it at:'' @ '' status page''" by simp
  then have b: "sublist ''View it at:'' ''Failed to create issue: View it at: status page''"
    by (metis sublist_appendI)
  from a b have "\<not> success outcome_view_it
     \<and> snd (Agent (gen_with [outcome_view_it]) (Some ''Create an issue'')) =
         ''Failed to create issue: View it at: status page''
     \<and> sublist ''View it at:'' (snd (Agent (gen_with [outcome_view_it]) (Some ''Create an issue'')))"
    by (simp add: outcome_view_it_def)
  with c show ?thesis by blast
qed


text \<open>
  Claim C5. Two runs on the same request whose results of \<^verbatim>\<open>generateText\<close> differ only
  in the tool results before the last one give the same answer.
\<close>

theorem Agent_last_tool_result_only:
  assumes "requestText = Some prompt" and "prompt \<noteq> []"
    and "generateText prompt = (es, Inr r)"
    and "generateText' prompt = (es', Inr (r\<lparr>toolResults := rs' @ [t]\<rparr>))"
    and "toolResults r = rs @ [t]"
  shows "snd (Agent generateText' requestText) = snd (Agent generateText requestText)"
proof -
  have "format_result (r\<lparr>toolResults := rs' @ [t]\<rparr>) = format_result r"
    using assms(5) by (simp add: format_result_def at_last_def)
  then show ?thesis
    using assms(1-4) by (simp add: Agent_model_answer split: sum.splits)
qed

theorem Agent_last_tool_result_only_witness:
  "snd (Agent (gen_with [outcome_ok, outcome_failed]) (Some ''Create an issue'')) =
   snd (Agent (gen_with [outcome_failed, outcome_failed]) (Some ''Create an issue''))
   \<and> snd (Agent (gen_with [outcome_failed, outcome_failed]) (Some ''Create an issue'')) =
       ''Failed to create issue: Not Found''"
proof -
  have "snd (Agent (gen_with [outcome_ok, outcome_failed]) (Some ''Create an issue'')) =
        snd (Agent (gen_with [outcome_failed, outcome_failed]) (Some ''Create an issue''))"
    by (rule Agent_last_tool_result_only
          [where prompt = "''Create an issue''" and es = "[]" and es' = "[]"
             and r = "\<lparr>result_text = ''Done.'', toolCalls = one_call,
                        toolResults = [\<lparr>result = outcome_failed\<rparr>, \<lparr>result = outcome_failed\<rparr>]\<rparr>"
             and rs = "[\<lparr>result = outcome_failed\<rparr>]" and rs' = "[\<lparr>result = outcome_ok\<rparr>]"
             and t = "\<lparr>result = outcome_failed\<rparr>"])
       (simp_all add: gen_with_def)
  moreover have "snd (Agent (gen_with [outcome_failed, outcome_failed]) (Some ''Create an issue'')) =
       ''Failed to create issue: Not Found''"
    by (simp add: Agent_def gen_with_def one_call_def format_result_def at_last_def Let_def outcome_failed_def)
  ultimately show ?thesis by simp
qed

text \<open>
  Claim C6. When the model's response has no tool call, the agent answers with the
  model's text, unchanged.
\<close>

theorem Agent_relays_plain_text:
  assumes "requestText = Some prompt" and "prompt \<noteq> []"
    and "generateText prompt = (es, Inr r)"
    and "toolCalls r = []"
  shows "snd (Agent generateText requestText) = result_text r"
  using assms by (simp add: Agent_model_answer format_result_def)

theorem Agent_relays_plain_text_witness:
  "snd (Agent gen_plain (Some ''Open an issue about the login bug'')) =
     ''Which repository should the issue go to?''"
proof -
  have "snd (Agent gen_plain (Some ''Open an issue about the login bug'')) =
          result_text \<lparr>result_text = ''Which repository should the issue go to?'',
                       toolCalls = [], toolResults = []\<rparr>"
    by (rule Agent_relays_plain_text
          [where prompt = "''Open an issue about the login bug''" and es = "[]"])
       (simp_all add: gen_plain_def)
  then show ?thesis by simp
qed

text \<open>
  Claim C7. For an empty or absent request text the agent answers with the fixed message,
  and its run has no effect at all: no call of the model, no call of the API.
\<close>

theorem Agent_asks_for_details:
  assumes "\<not> truthy requestText"
  shows "Agent generateText requestText =
           ([], ''Please provide details about the issue you want to create.'')
         \<and> no_model_call (fst (Agent generateText requestText))
         \<and> no_api_call (fst (Agent generateText requestText))"
  using assms
  by (cases requestText) (simp_all add: Agent_def no_model_call_def no_api_call_def)

theorem Agent_asks_for_details_witness:
  "\<not> truthy (Some []) \<and> \<not> truthy None
   \<and> Agent (gen_with [outcome_ok]) (Some []) =
       ([], ''Please provide details about the issue you want to create.'')
   \<and> Agent (gen_with [outcome_ok]) None =
       ([], ''Please provide details about the issue you want to create.'')"
  using Agent_asks_for_details [of "Some []" "gen_with [outcome_ok]"]
    Agent_asks_for_details [of None "gen_with [outcome_ok]"]
  by simp

text \<open>
  Claim C8, as the code has it. For an absent request text the relay calls the
  chat-completion API with the one user message "Say this is a test"; a request text that
  is present, the empty string included, is sent as it is.
\<close>

theorem Agent_relay_fallback_only_when_absent:
  "fst (Agent_relay create None) =
     [ChatCompletionsCreate
        \<lparr>messages = [\<lparr>role = ''user'', content = ''Say this is a test''\<rparr>], model = ''gpt-4o''\<rparr>]
   \<and> fst (Agent_relay create (Some txt)) =
     [ChatCompletionsCreate \<lparr>messages = [\<lparr>role = ''user'', content = txt\<rparr>], model = ''gpt-4o''\<rparr>]"
  by (simp add: Agent_relay_def Let_def split: sum.splits)

text \<open>
  Claim C8 as stated fails for the empty request text: \<^verbatim>\<open>??\<close> replaces only \<^verbatim>\<open>null\<close> and
  \<^verbatim>\<open>undefined\<close>, so the content sent is the empty string.
\<close>

theorem Agent_relay_sends_empty_text:
  "fst (Agent_relay chat_ok (Some [])) =
     [ChatCompletionsCreate \<lparr>messages = [\<lparr>role = ''user'', content = []\<rparr>], model = ''gpt-4o''\<rparr>]
   \<and> fst (Agent_relay chat_ok (Some [])) \<noteq>
     [ChatCompletionsCreate
        \<lparr>messages = [\<lparr>role = ''user'', content = ''Say this is a test''\<rparr>], model = ''gpt-4o''\<rparr>]"
  by (simp add: Agent_relay_def Let_def chat_ok_def)

text \<open>
  Claim C10. When the model made a tool call and the list of tool results is empty, reading
  \<^verbatim>\<open>success\<close> of the missing result throws, the handler at the top catches and logs it,
  and the agent answers with a text that begins with
  "An error occurred while processing your request:".
\<close>

theorem Agent_missing_tool_result_is_caught:
  assumes "requestText = Some prompt" and "prompt \<noteq> []"
    and "generateText prompt = (es, Inr r)"
    and "toolCalls r \<noteq> []" and "toolResults r = []"
  shows "Agent generateText requestText =
           (GenerateText prompt # es @
              [ConsoleError ''Error in GitHub issue agent:'' (undefined_read ''success'')],
            ''An error occurred while processing your request: '' @
              error_text (undefined_read ''success''))
         \<and> prefix ''An error occurred while processing your request:''
              (snd (Agent generateText requestText))"
proof -
  have f: "format_result r = Inl (undefined_read ''success'')"
    using assms(4,5) by (simp add: format_result_def at_last_def)
  have a: "Agent generateText requestText =
           (GenerateText prompt # es @
              [ConsoleError ''Error in GitHub issue agent:'' (undefined_read ''success'')],
            ''An error occurred while processing your request: '' @
              error_text (undefined_read ''success''))"
    using assms(1-3) f by (simp add: Agent_model_answer)
  have "''An error occurred while processing your request: '' @ error_text (undefined_read ''success'')
        = ''An error occurred while processing your request:'' @ ('' '' @ error_text (undefined_read ''success''))"
    by simp
  then have "prefix ''An error occurred while processing your request:''
      (''An error occurred while processing your request: '' @ error_text (undefined_read ''success''))"
    by (metis prefixI)
  with a show ?thesis by simp
qed

theorem Agent_missing_tool_result_is_caught_witness:
  "prefix ''An error occurred while processing your request:''
     (snd (Agent (gen_with []) (Some ''Create an issue'')))
   \<and> snd (Agent (gen_with []) (Some ''Create an issue'')) =
       ''An error occurred while processing your request: '' @ error_text (undefined_read ''success'')"
proof -
  have "Agent (gen_with []) (Some ''Create an issue'') =
           (GenerateText ''Create an issue'' # [] @
              [ConsoleError ''Error in GitHub issue agent:'' (undefined_read ''success'')],
            ''An error occurred while processing your request: '' @
              error_text (undefined_read ''success''))
         \<and> prefix ''An error occurred while processing your request:''
              (snd (Agent (gen_with []) (Some ''Create an issue'')))"
    by (rule Agent_missing_tool_result_is_caught
          [where prompt = "''Create an issue''"
             and r = "\<lparr>result_text = ''Done.'', toolCalls = one_call, toolResults = []\<rparr>"])
       (simp_all add: gen_with_def one_call_def)
  then show ?thesis by simp
qed

end
